theory Spec2Isabelle
  imports Complex_Main
begin

section \<open>The dataset\<close>

text \<open>
  \<open>plot_column\<close> (src/acme_plot/plot.py) reads a pandas DataFrame through three
  operations only: membership of a name in \<open>df.columns\<close>, column lookup by name
  (\<open>df[name]\<close>), and the row filter \<open>df.query("<col> == @value")\<close>. A DataFrame is
  modelled by its column names and its rows; a row gives a cell for a column name.
  Cells are strings and integers, compared by value; floating-point cells and the
  missing-value marker are outside the model. Looking up a column that the frame
  does not have raises \<open>KeyError\<close>. The query keeps the rows whose cell in the
  named column equals the value; how pandas parses the column name inside the query
  string is not modelled.
\<close>

datatype cell = Str string | Num int

record dataframe =
  df_columns :: "string list"
  df_rows :: "(string \<Rightarrow> cell) list"

datatype error =
    ValueError string
  | KeyError string
  | TypeError string
  | ZeroDivisionError
  | UnboundLocalError string
  | IndexError

definition getitem :: "dataframe \<Rightarrow> string \<Rightarrow> error + cell list" where
  "getitem df name =
     (if name \<in> set (df_columns df) then Inr (map (\<lambda>r. r name) (df_rows df))
      else Inl (KeyError name))"

definition query_eq :: "dataframe \<Rightarrow> string \<Rightarrow> cell \<Rightarrow> dataframe" where
  "query_eq df name v = df\<lparr>df_rows := filter (\<lambda>r. r name = v) (df_rows df)\<rparr>"

text \<open>
  \<open>Series.unique()\<close> returns the distinct values in order of first appearance: a
  value is appended to the output when it has not been seen before.
\<close>

fun unique_acc :: "'a list \<Rightarrow> 'a list \<Rightarrow> 'a list" where
  "unique_acc seen [] = seen"
| "unique_acc seen (x # xs) =
     (if x \<in> set seen then unique_acc seen xs else unique_acc (seen @ [x]) xs)"

definition unique :: "'a list \<Rightarrow> 'a list" where
  "unique xs = unique_acc [] xs"

text \<open>Position of the first occurrence of a value in a column (its length when absent).\<close>

fun first_index :: "'a \<Rightarrow> 'a list \<Rightarrow> nat" where
  "first_index x [] = 0"
| "first_index x (y # ys) = (if x = y then 0 else Suc (first_index x ys))"

section \<open>Formatting\<close>

text \<open>\<open>str\<close> of a non-negative integer, of an integer and of a cell (f-string fields).\<close>

fun str_nat :: "nat \<Rightarrow> string" where
  "str_nat n =
     (if n < 10 then [''0123456789'' ! n]
      else str_nat (n div 10) @ [''0123456789'' ! (n mod 10)])"

declare str_nat.simps [simp del]

definition str_int :: "int \<Rightarrow> string" where
  "str_int i = (if i < 0 then ''-'' @ str_nat (nat (- i)) else str_nat (nat i))"

fun str :: "cell \<Rightarrow> string" where
  "str (Str s) = s"
| "str (Num i) = str_int i"

section \<open>The drawing state\<close>

text \<open>
  matplotlib's ambient state is made explicit: the figures that exist (the last one
  is the current figure), each with its panels (axes; the last one is the current
  axes), and the records sent to the module's logger. Spacing arguments (\<open>pad\<close>,
  \<open>labelpad\<close>, the legend's anchor offset) have no structural effect and are not kept.
\<close>

record line2d =
  ln_x :: "cell list"
  ln_y :: "cell list"
  ln_label :: "cell option"
  ln_kwargs :: "(string \<times> cell) list"

record axes =
  ax_lines :: "line2d list"
  ax_title :: "string option"
  ax_xlabel :: "string option"
  ax_ylabel :: "string option"
  ax_grid :: bool
  ax_xtick_rotation :: int
  ax_legend :: "string option"
  ax_visible :: bool

record figure =
  fig_size :: "(int \<times> int) option"
  fig_grid :: "(int \<times> int) option"
  fig_axes :: "axes list"
  fig_suptitle :: "string option"
  fig_tight :: bool

record world =
  plt_figures :: "figure list"
  log_warnings :: "string list"

text \<open>An axes object is addressed by the figure that owns it and its slot there.\<close>

type_synonym handle = "nat \<times> nat"

definition new_axes :: axes where
  "new_axes = \<lparr>ax_lines = [], ax_title = None, ax_xlabel = None, ax_ylabel = None,
     ax_grid = False, ax_xtick_rotation = 0, ax_legend = None, ax_visible = True\<rparr>"

definition new_figure :: "(int \<times> int) option \<Rightarrow> (int \<times> int) option \<Rightarrow> axes list \<Rightarrow> figure" where
  "new_figure sz shape axs =
     \<lparr>fig_size = sz, fig_grid = shape, fig_axes = axs, fig_suptitle = None, fig_tight = False\<rparr>"

definition logger_warning :: "string \<Rightarrow> world \<Rightarrow> world" where
  "logger_warning msg w = w\<lparr>log_warnings := log_warnings w @ [msg]\<rparr>"

definition plt_figure :: "int \<times> int \<Rightarrow> world \<Rightarrow> world" where
  "plt_figure figsize w = w\<lparr>plt_figures := plt_figures w @ [new_figure (Some figsize) None []]\<rparr>"

text \<open>
  \<open>plt.subplots(nrows, ncols, figsize=...)\<close> adds a figure with \<open>nrows * ncols\<close> fresh
  panels, laid out as a grid of that shape (\<open>fig_grid\<close>; a figure made by
  \<open>plt.figure\<close> has none), and returns them; the model returns their handles in
  row-major order, which is what \<open>flatten()\<close> gives. For a 1 x 1 grid the call
  returns the bare panel, which line 49 wraps in a list: the one-element handle list.
\<close>

definition plt_subplots :: "int \<Rightarrow> int \<Rightarrow> int \<times> int \<Rightarrow> world \<Rightarrow> world \<times> handle list" where
  "plt_subplots nrows ncols figsize w =
     (let n = nat nrows * nat ncols
      in (w\<lparr>plt_figures := plt_figures w @ [new_figure (Some figsize) (Some (nrows, ncols)) (replicate n new_axes)]\<rparr>,
          map (Pair (length (plt_figures w))) [0..<n]))"

text \<open>Methods of an axes object, applied through its handle.\<close>

definition on_axes :: "handle \<Rightarrow> (axes \<Rightarrow> axes) \<Rightarrow> world \<Rightarrow> world" where
  "on_axes h f w =
     (case h of (fid, k) \<Rightarrow>
        if fid < length (plt_figures w) \<and> k < length (fig_axes (plt_figures w ! fid))
        then w\<lparr>plt_figures := (plt_figures w)
               [fid := (plt_figures w ! fid)
                  \<lparr>fig_axes := (fig_axes (plt_figures w ! fid))
                     [k := f (fig_axes (plt_figures w ! fid) ! k)]\<rparr>]\<rparr>
        else w)"

definition ax_plot :: "cell list \<Rightarrow> cell list \<Rightarrow> cell option \<Rightarrow> (string \<times> cell) list \<Rightarrow> axes \<Rightarrow> axes" where
  "ax_plot x y lbl kw ax =
     ax\<lparr>ax_lines := ax_lines ax @ [\<lparr>ln_x = x, ln_y = y, ln_label = lbl, ln_kwargs = kw\<rparr>]\<rparr>"

definition set_title :: "string \<Rightarrow> axes \<Rightarrow> axes" where
  "set_title s ax = ax\<lparr>ax_title := Some s\<rparr>"

definition set_xlabel :: "string \<Rightarrow> axes \<Rightarrow> axes" where
  "set_xlabel s ax = ax\<lparr>ax_xlabel := Some s\<rparr>"

definition set_ylabel :: "string \<Rightarrow> axes \<Rightarrow> axes" where
  "set_ylabel s ax = ax\<lparr>ax_ylabel := Some s\<rparr>"

definition grid :: "bool \<Rightarrow> axes \<Rightarrow> axes" where
  "grid b ax = ax\<lparr>ax_grid := b\<rparr>"

definition tick_params_x_rotation :: "int \<Rightarrow> axes \<Rightarrow> axes" where
  "tick_params_x_rotation r ax = ax\<lparr>ax_xtick_rotation := r\<rparr>"

definition legend :: "string \<Rightarrow> axes \<Rightarrow> axes" where
  "legend loc ax = ax\<lparr>ax_legend := Some loc\<rparr>"

definition set_visible :: "bool \<Rightarrow> axes \<Rightarrow> axes" where
  "set_visible b ax = ax\<lparr>ax_visible := b\<rparr>"

text \<open>
  The \<open>plt.*\<close> functions act on the current figure and its current axes, creating
  either when there is none (\<open>gcf()\<close>, \<open>gca()\<close>).
\<close>

definition on_gcf :: "(figure \<Rightarrow> figure) \<Rightarrow> world \<Rightarrow> world" where
  "on_gcf f w =
     (let figs = (if plt_figures w = [] then [new_figure None None []] else plt_figures w)
      in w\<lparr>plt_figures := butlast figs @ [f (last figs)]\<rparr>)"

definition on_gca :: "(axes \<Rightarrow> axes) \<Rightarrow> figure \<Rightarrow> figure" where
  "on_gca f fig =
     (let axs = (if fig_axes fig = [] then [new_axes] else fig_axes fig)
      in fig\<lparr>fig_axes := butlast axs @ [f (last axs)]\<rparr>)"

definition plt_plot :: "cell list \<Rightarrow> cell list \<Rightarrow> cell option \<Rightarrow> (string \<times> cell) list \<Rightarrow> world \<Rightarrow> world" where
  "plt_plot x y lbl kw w = on_gcf (on_gca (ax_plot x y lbl kw)) w"

definition plt_title :: "string \<Rightarrow> world \<Rightarrow> world" where
  "plt_title s w = on_gcf (on_gca (set_title s)) w"

definition plt_xlabel :: "string \<Rightarrow> world \<Rightarrow> world" where
  "plt_xlabel s w = on_gcf (on_gca (set_xlabel s)) w"

definition plt_ylabel :: "string \<Rightarrow> world \<Rightarrow> world" where
  "plt_ylabel s w = on_gcf (on_gca (set_ylabel s)) w"

definition plt_grid :: "bool \<Rightarrow> world \<Rightarrow> world" where
  "plt_grid b w = on_gcf (on_gca (grid b)) w"

definition plt_legend :: "string \<Rightarrow> world \<Rightarrow> world" where
  "plt_legend loc w = on_gcf (on_gca (legend loc)) w"

definition plt_xticks_rotation :: "int \<Rightarrow> world \<Rightarrow> world" where
  "plt_xticks_rotation r w = on_gcf (on_gca (tick_params_x_rotation r)) w"

definition plt_suptitle :: "string \<Rightarrow> world \<Rightarrow> world" where
  "plt_suptitle s w = on_gcf (\<lambda>fig. fig\<lparr>fig_suptitle := Some s\<rparr>) w"

definition plt_tight_layout :: "world \<Rightarrow> world" where
  "plt_tight_layout w = on_gcf (\<lambda>fig. fig\<lparr>fig_tight := True\<rparr>) w"

section \<open>plot\_column\<close>

text \<open>Python's \<open>//\<close> on integers: floor division, \<open>ZeroDivisionError\<close> on a zero divisor.\<close>

definition floordiv :: "int \<Rightarrow> int \<Rightarrow> error + int" where
  "floordiv a b = (if b = 0 then Inl ZeroDivisionError else Inr (a div b))"

definition figure_title :: "string \<Rightarrow> string" where
  "figure_title column_name = ''`'' @ column_name @ ''` Over Time by Symbol''"

definition large_number_warning :: "nat \<Rightarrow> string" where
  "large_number_warning n =
     ''Large number of symbols ('' @ str_int (int n) @
     ''). Switching to subplot view for better visibility.''"

text \<open>
  Lines 51-63: the loop over \<open>enumerate(symbols)\<close>. The argument \<open>i\<close> is the binding
  of the loop variable \<open>i\<close> so far (\<open>None\<close>: not bound yet); the loop returns the
  binding it leaves behind.
\<close>

fun plot_each_subplot ::
  "dataframe \<Rightarrow> string \<Rightarrow> (string \<times> cell) list \<Rightarrow> string \<Rightarrow> string \<Rightarrow> handle list \<Rightarrow>
   (nat \<times> cell) list \<Rightarrow> nat option \<Rightarrow> world \<Rightarrow> world \<times> (error + nat option)" where
  "plot_each_subplot df column_name plot_kwargs symbol_column datetime_column axes [] i w =
     (w, Inr i)"
| "plot_each_subplot df column_name plot_kwargs symbol_column datetime_column axes
     ((i, symbol) # rest) i0 w =
     (let symbol_data = query_eq df symbol_column symbol in
      if length axes \<le> i then (w, Inl IndexError)
      else
        case getitem symbol_data datetime_column of
          Inl e \<Rightarrow> (w, Inl e)
        | Inr x \<Rightarrow>
           (case getitem symbol_data column_name of
              Inl e \<Rightarrow> (w, Inl e)
            | Inr y \<Rightarrow>
               (let w = on_axes (axes ! i) (ax_plot x y None plot_kwargs) w;
                    w = on_axes (axes ! i) (set_title (str symbol)) w;
                    w = on_axes (axes ! i) (set_xlabel ''Date'') w;
                    w = on_axes (axes ! i) (set_ylabel column_name) w;
                    w = on_axes (axes ! i) (grid True) w;
                    w = on_axes (axes ! i) (tick_params_x_rotation 45) w
                in plot_each_subplot df column_name plot_kwargs symbol_column datetime_column
                     axes rest (Some i) w)))"

text \<open>
  Lines 65-67: \<open>for j in range(i+1, len(axes)): axes[j].set_visible(False)\<close>, with
  \<open>i\<close> the binding left by the loop above.
\<close>

definition unused_range :: "nat \<Rightarrow> nat \<Rightarrow> nat list" where
  "unused_range i len_axes = [i + 1 ..< len_axes]"

definition hide_unused :: "nat option \<Rightarrow> handle list \<Rightarrow> world \<Rightarrow> world \<times> (error + unit)" where
  "hide_unused i axes w =
     (case i of
        None \<Rightarrow> (w, Inl (UnboundLocalError ''i''))
      | Some i \<Rightarrow>
          (fold (\<lambda>j w. on_axes (axes ! j) (set_visible False) w)
             (unused_range i (length axes)) w, Inr ()))"

text \<open>Lines 42-72: the branch taken when \<open>len(symbols) > subplot_threshold\<close>.\<close>

definition plot_subplots ::
  "world \<Rightarrow> dataframe \<Rightarrow> string \<Rightarrow> (string \<times> cell) list \<Rightarrow> string \<Rightarrow> string \<Rightarrow> cell list \<Rightarrow>
   world \<times> error option" where
  "plot_subplots w df column_name plot_kwargs symbol_column datetime_column symbols =
     (let w = logger_warning (large_number_warning (length symbols)) w;
          n_symbols = int (length symbols);
          n_cols = min 3 n_symbols
      in case floordiv (n_symbols + n_cols - 1) n_cols of
           Inl e \<Rightarrow> (w, Some e)
         | Inr n_rows \<Rightarrow>
            (case plt_subplots n_rows n_cols (15, 5 * n_rows) w of
               (w, axes) \<Rightarrow>
                (let axes = (if n_symbols > 1 then axes else take 1 axes)
                 in case plot_each_subplot df column_name plot_kwargs symbol_column
                           datetime_column axes (enumerate 0 symbols) None w of
                      (w, Inl e) \<Rightarrow> (w, Some e)
                    | (w, Inr i) \<Rightarrow>
                       (case hide_unused i axes w of
                          (w, Inl e) \<Rightarrow> (w, Some e)
                        | (w, Inr _) \<Rightarrow>
                           (let w = plt_suptitle (figure_title column_name) w;
                                w = plt_tight_layout w
                            in (w, None))))))"

text \<open>
  Lines 77-82: the loop of the other branch. \<open>label=symbol\<close> is passed next to
  \<open>**plot_kwargs\<close>, so a \<open>label\<close> key in the options is a duplicate keyword argument
  (\<open>TypeError\<close>), raised after the positional arguments have been evaluated.
\<close>

fun plot_each_line ::
  "dataframe \<Rightarrow> string \<Rightarrow> (string \<times> cell) list \<Rightarrow> string \<Rightarrow> string \<Rightarrow> cell list \<Rightarrow>
   world \<Rightarrow> world \<times> (error + unit)" where
  "plot_each_line df column_name plot_kwargs symbol_column datetime_column [] w = (w, Inr ())"
| "plot_each_line df column_name plot_kwargs symbol_column datetime_column (symbol # rest) w =
     (let symbol_data = query_eq df symbol_column symbol in
      case getitem symbol_data datetime_column of
        Inl e \<Rightarrow> (w, Inl e)
      | Inr x \<Rightarrow>
         (case getitem symbol_data column_name of
            Inl e \<Rightarrow> (w, Inl e)
          | Inr y \<Rightarrow>
             if ''label'' \<in> fst ` set plot_kwargs then (w, Inl (TypeError ''label''))
             else plot_each_line df column_name plot_kwargs symbol_column datetime_column rest
                    (plt_plot x y (Some symbol) plot_kwargs w)))"

text \<open>Lines 74-95: the branch taken otherwise.\<close>

definition plot_single ::
  "world \<Rightarrow> dataframe \<Rightarrow> string \<Rightarrow> (string \<times> cell) list \<Rightarrow> string \<Rightarrow> string \<Rightarrow> cell list \<Rightarrow>
   world \<times> error option" where
  "plot_single w df column_name plot_kwargs symbol_column datetime_column symbols =
     (let w = plt_figure (10, 6) w
      in case plot_each_line df column_name plot_kwargs symbol_column datetime_column symbols w of
           (w, Inl e) \<Rightarrow> (w, Some e)
         | (w, Inr _) \<Rightarrow>
            (let w = plt_title (figure_title column_name) w;
                 w = plt_xlabel ''Date'' w;
                 w = plt_ylabel column_name w;
                 w = plt_grid True w;
                 w = plt_legend ''upper left'' w;
                 w = plt_xticks_rotation 45 w;
                 w = plt_tight_layout w
             in (w, None)))"

text \<open>
  The whole function. The result is the state it leaves and the exception it raised,
  if any (\<open>None\<close>: it returned \<open>plt\<close>).
\<close>

definition missing_columns_message :: string where
  "missing_columns_message = ''DataFrame must have 'datetime' and 'symbol' columns''"

definition plot_column ::
  "world \<Rightarrow> dataframe \<Rightarrow> string \<Rightarrow> (string \<times> cell) list option \<Rightarrow> int \<Rightarrow> string \<Rightarrow> string \<Rightarrow>
   world \<times> error option" where
  "plot_column w df column_name plot_kwargs subplot_threshold symbol_column datetime_column =
     (if datetime_column \<notin> set (df_columns df) \<or> symbol_column \<notin> set (df_columns df)
      then (w, Some (ValueError missing_columns_message))
      else
        let plot_kwargs = (case plot_kwargs of None \<Rightarrow> [] | Some kw \<Rightarrow> kw) in
        case getitem df symbol_column of
          Inl e \<Rightarrow> (w, Some e)
        | Inr col \<Rightarrow>
           (let symbols = unique col in
            if int (length symbols) > subplot_threshold
            then plot_subplots w df column_name plot_kwargs symbol_column datetime_column symbols
            else plot_single w df column_name plot_kwargs symbol_column datetime_column symbols))"

section \<open>Derived notions\<close>

text \<open>
  The distinct group values of a frame, as line 40 computes them, and the options
  after the default of lines 37-38.
\<close>

definition symbols :: "dataframe \<Rightarrow> string \<Rightarrow> cell list" where
  "symbols df symbol_column = unique (map (\<lambda>r. r symbol_column) (df_rows df))"

definition kwargs_of :: "(string \<times> cell) list option \<Rightarrow> (string \<times> cell) list" where
  "kwargs_of plot_kwargs = (case plot_kwargs of None \<Rightarrow> [] | Some kw \<Rightarrow> kw)"

text \<open>
  The cells of one column in the rows whose group cell equals a given value: what
  \<open>symbol_data[name]\<close> holds.
\<close>

definition column_where :: "dataframe \<Rightarrow> string \<Rightarrow> string \<Rightarrow> cell \<Rightarrow> cell list" where
  "column_where df name symbol_column symbol =
     map (\<lambda>r. r name) (filter (\<lambda>r. r symbol_column = symbol) (df_rows df))"

text \<open>
  A panel after one iteration of the subplot loop (lines 56-63), and a list of panels
  after the iterations for a list of group values, starting at slot \<open>k\<close>.
\<close>

definition subplot_panel ::
  "dataframe \<Rightarrow> string \<Rightarrow> (string \<times> cell) list \<Rightarrow> string \<Rightarrow> string \<Rightarrow> cell \<Rightarrow> axes \<Rightarrow> axes" where
  "subplot_panel df column_name plot_kwargs symbol_column datetime_column symbol ax =
     tick_params_x_rotation 45 (grid True (set_ylabel column_name (set_xlabel ''Date''
       (set_title (str symbol)
          (ax_plot (column_where df datetime_column symbol_column symbol)
                   (column_where df column_name symbol_column symbol) None plot_kwargs ax)))))"

fun paint ::
  "dataframe \<Rightarrow> string \<Rightarrow> (string \<times> cell) list \<Rightarrow> string \<Rightarrow> string \<Rightarrow> nat \<Rightarrow> cell list \<Rightarrow>
   axes list \<Rightarrow> axes list" where
  "paint df cn kw sc dc k [] axs = axs"
| "paint df cn kw sc dc k (s # ss) axs =
     paint df cn kw sc dc (Suc k) ss (axs[k := subplot_panel df cn kw sc dc s (axs ! k)])"

text \<open>
  The number of panels the grid branch allocates for \<open>G\<close> groups, the figure as
  \<open>plt.subplots\<close> leaves it, and the figure the grid branch leaves when it returns.
\<close>

definition grid_slots :: "nat \<Rightarrow> nat" where
  "grid_slots G =
     (let n_cols = min 3 (int G);
          n_rows = (int G + n_cols - 1) div n_cols
      in nat n_rows * nat n_cols)"

definition blank_grid_figure :: "nat \<Rightarrow> figure" where
  "blank_grid_figure G =
     (let n_cols = min 3 (int G);
          n_rows = (int G + n_cols - 1) div n_cols
      in new_figure (Some (15, 5 * n_rows)) (Some (n_rows, n_cols))
           (replicate (grid_slots G) new_axes))"

definition grid_figure ::
  "dataframe \<Rightarrow> string \<Rightarrow> (string \<times> cell) list \<Rightarrow> string \<Rightarrow> string \<Rightarrow> cell list \<Rightarrow> figure" where
  "grid_figure df cn kw sc dc ss =
     (blank_grid_figure (length ss))
       \<lparr>fig_axes := map (\<lambda>j. if j < length ss then subplot_panel df cn kw sc dc (ss ! j) new_axes
                               else set_visible False new_axes)
                       [0..<grid_slots (length ss)],
        fig_suptitle := Some (figure_title cn), fig_tight := True\<rparr>"

text \<open>
  The line drawn for one group value by the other branch, and the figure that branch
  leaves when it returns.
\<close>

definition symbol_line ::
  "dataframe \<Rightarrow> string \<Rightarrow> (string \<times> cell) list \<Rightarrow> string \<Rightarrow> string \<Rightarrow> cell \<Rightarrow> line2d" where
  "symbol_line df cn kw sc dc s =
     \<lparr>ln_x = column_where df dc sc s, ln_y = column_where df cn sc s,
      ln_label = Some s, ln_kwargs = kw\<rparr>"

definition single_figure ::
  "dataframe \<Rightarrow> string \<Rightarrow> (string \<times> cell) list \<Rightarrow> string \<Rightarrow> string \<Rightarrow> cell list \<Rightarrow> figure" where
  "single_figure df cn kw sc dc ss =
     \<lparr>fig_size = Some (10, 6), fig_grid = None,
      fig_axes = [\<lparr>ax_lines = map (symbol_line df cn kw sc dc) ss,
                   ax_title = Some (figure_title cn), ax_xlabel = Some ''Date'',
                   ax_ylabel = Some cn, ax_grid = True, ax_xtick_rotation = 45,
                   ax_legend = Some ''upper left'', ax_visible = True\<rparr>],
      fig_suptitle = None, fig_tight = True\<rparr>"

text \<open>
  The figures added, the warnings logged and the exception raised by a call, in each
  of its cases.
\<close>

definition render_effect ::
  "dataframe \<Rightarrow> string \<Rightarrow> (string \<times> cell) list \<Rightarrow> int \<Rightarrow> string \<Rightarrow> string \<Rightarrow>
   figure list \<times> string list \<times> error option" where
  "render_effect df cn kw T sc dc =
     (let ss = symbols df sc in
      if dc \<notin> set (df_columns df) \<or> sc \<notin> set (df_columns df)
      then ([], [], Some (ValueError missing_columns_message))
      else if T < int (length ss) then
        (if ss = [] then ([], [large_number_warning 0], Some ZeroDivisionError)
         else if cn \<notin> set (df_columns df)
         then ([blank_grid_figure (length ss)], [large_number_warning (length ss)], Some (KeyError cn))
         else ([grid_figure df cn kw sc dc ss], [large_number_warning (length ss)], None))
      else
        (if ss = [] then ([single_figure df cn kw sc dc []], [], None)
         else if cn \<notin> set (df_columns df)
         then ([new_figure (Some (10, 6)) None []], [], Some (KeyError cn))
         else if ''label'' \<in> fst ` set kw
         then ([new_figure (Some (10, 6)) None []], [], Some (TypeError ''label''))
         else ([single_figure df cn kw sc dc ss], [], None)))"

text \<open>What a call leaves behind: the figures it added and the warnings it logged.\<close>

definition drawn :: "world \<Rightarrow> world \<Rightarrow> figure list" where
  "drawn w w' = drop (length (plt_figures w)) (plt_figures w')"

definition logged :: "world \<Rightarrow> world \<Rightarrow> string list" where
  "logged w w' = drop (length (log_warnings w)) (log_warnings w')"

definition all_lines :: "figure list \<Rightarrow> line2d list" where
  "all_lines figs = concat (map ax_lines (concat (map fig_axes figs)))"

text \<open>
  The hide step as the specification's design note words it: the range of unused
  slots computed from the number of groups and the grid dimensions, with no use of
  the loop variable.
\<close>

definition unused_range_explicit :: "nat \<Rightarrow> nat \<Rightarrow> nat \<Rightarrow> nat list" where
  "unused_range_explicit G n_rows n_cols = [G ..< n_rows * n_cols]"

definition hide_unused_explicit ::
  "nat \<Rightarrow> nat \<Rightarrow> nat \<Rightarrow> handle list \<Rightarrow> world \<Rightarrow> world \<times> (error + unit)" where
  "hide_unused_explicit G n_rows n_cols axes w =
     (fold (\<lambda>j w. on_axes (axes ! j) (set_visible False) w)
        (unused_range_explicit G n_rows n_cols) w, Inr ())"

section \<open>Example inputs\<close>

definition row :: "(string \<times> cell) list \<Rightarrow> string \<Rightarrow> cell" where
  "row kvs name = (case map_of kvs name of Some v \<Rightarrow> v | None \<Rightarrow> Str [])"

definition no_figures :: world where
  "no_figures = \<lparr>plt_figures = [], log_warnings = []\<rparr>"

definition one_figure :: world where
  "one_figure = \<lparr>plt_figures = [new_figure None None []], log_warnings = [''earlier'']\<rparr>"

text \<open>Three rows, two groups, the second group value sorting before the first.\<close>

definition prices :: "string list \<Rightarrow> dataframe" where
  "prices cols =
     \<lparr>df_columns = cols,
      df_rows =
        [row [(''datetime'', Num 1), (''symbol'', Str ''MSFT''), (''price'', Num 10)],
         row [(''datetime'', Num 1), (''symbol'', Str ''AAPL''), (''price'', Num 20)],
         row [(''datetime'', Num 2), (''symbol'', Str ''MSFT''), (''price'', Num 11)]]\<rparr>"

text \<open>\<open>n\<close> rows, each a group of its own.\<close>

definition numbered :: "nat \<Rightarrow> string list \<Rightarrow> dataframe" where
  "numbered n cols =
     \<lparr>df_columns = cols,
      df_rows = map (\<lambda>k. row [(''datetime'', Num 0), (''symbol'', Num (int k)), (''price'', Num 7)])
                  [0..<n]\<rparr>"


section \<open>Properties of the operations\<close>

lemma on_axes_last:
  "on_axes (length fs, k) f (w\<lparr>plt_figures := fs @ [g]\<rparr>) =
   w\<lparr>plt_figures := fs @ [g\<lparr>fig_axes := (fig_axes g)[k := f (fig_axes g ! k)]\<rparr>]\<rparr>"
  by (cases "k < length (fig_axes g)") (simp_all add: on_axes_def list_update_beyond)

lemma on_gcf_last:
  "on_gcf f (w\<lparr>plt_figures := fs @ [g]\<rparr>) = w\<lparr>plt_figures := fs @ [f g]\<rparr>"
  by (simp add: on_gcf_def)

lemma getitem_query:
  "name \<in> set (df_columns df) \<Longrightarrow>
   getitem (query_eq df sc s) name = Inr (column_where df name sc s)"
  by (simp add: getitem_def query_eq_def column_where_def)

lemma getitem_query_missing:
  "name \<notin> set (df_columns df) \<Longrightarrow> getitem (query_eq df sc s) name = Inl (KeyError name)"
  by (simp add: getitem_def query_eq_def)

lemma paint_length: "length (paint df cn kw sc dc k ss axs) = length axs"
  by (induction ss arbitrary: k axs) simp_all

lemma paint_nth:
  "j < length axs \<Longrightarrow>
   paint df cn kw sc dc k ss axs ! j =
     (if k \<le> j \<and> j < k + length ss then subplot_panel df cn kw sc dc (ss ! (j - k)) (axs ! j)
      else axs ! j)"
proof (induction ss arbitrary: k axs)
  case Nil
  then show ?case by auto
next
  case (Cons s ss)
  show ?case
  proof (cases "j = k")
    case True
    with Cons show ?thesis by simp
  next
    case False
    with Cons show ?thesis by (auto simp: nth_Cons' Suc_diff_le)
  qed
qed

lemma subplot_loop:
  assumes "datetime_column \<in> set (df_columns df)" and "column_name \<in> set (df_columns df)"
    and "k + length ss \<le> length (fig_axes g)"
  shows "plot_each_subplot df column_name kw sc datetime_column
           (map (Pair (length fs)) [0..<length (fig_axes g)]) (enumerate k ss) i
           (w\<lparr>plt_figures := fs @ [g]\<rparr>) =
         (w\<lparr>plt_figures := fs @ [g\<lparr>fig_axes := paint df column_name kw sc datetime_column k ss (fig_axes g)\<rparr>]\<rparr>,
          Inr (if ss = [] then i else Some (k + length ss - 1)))"
  using assms(3)
proof (induction ss arbitrary: k g i)
  case Nil
  then show ?case by simp
next
  case (Cons s ss)
  let ?g = "g\<lparr>fig_axes := (fig_axes g)[k := subplot_panel df column_name kw sc datetime_column s (fig_axes g ! k)]\<rparr>"
  have k: "k < length (fig_axes g)" using Cons.prems by simp
  have len: "length (fig_axes ?g) = length (fig_axes g)" by simp
  have step: "Suc k + length ss \<le> length (fig_axes ?g)" using Cons.prems by simp
  have ih: "plot_each_subplot df column_name kw sc datetime_column
           (map (Pair (length fs)) [0..<length (fig_axes g)]) (enumerate (Suc k) ss) (Some k)
           (w\<lparr>plt_figures := fs @ [?g]\<rparr>) =
         (w\<lparr>plt_figures := fs @ [?g\<lparr>fig_axes := paint df column_name kw sc datetime_column (Suc k) ss (fig_axes ?g)\<rparr>]\<rparr>,
          Inr (if ss = [] then Some k else Some (Suc k + length ss - 1)))"
    using Cons.IH [OF step, of "Some k"] unfolding len .
  show ?case
    using k assms(1,2) ih
    by (simp add: getitem_query on_axes_last subplot_panel_def Let_def)
qed

lemma update_fold_length:
  "length (fold (\<lambda>j a. a[j := f (a ! j)]) js axs) = length axs"
  by (induction js arbitrary: axs) simp_all

lemma update_fold_nth:
  "distinct js \<Longrightarrow> j < length axs \<Longrightarrow>
   fold (\<lambda>j a. a[j := f (a ! j)]) js axs ! j = (if j \<in> set js then f (axs ! j) else axs ! j)"
proof (induction js arbitrary: axs)
  case Nil
  then show ?case by simp
next
  case (Cons a js)
  have d: "distinct js" and a: "a \<notin> set js" using Cons.prems by simp_all
  have l: "j < length (axs[a := f (axs ! a)])" using Cons.prems by simp
  show ?case
  proof (cases "j = a")
    case True
    then show ?thesis using Cons.IH [OF d l] a Cons.prems by simp
  next
    case False
    then show ?thesis using Cons.IH [OF d l] by simp
  qed
qed

lemma hide_fold:
  assumes "n = length (fig_axes g)" and "\<forall>j \<in> set js. j < n"
  shows "fold (\<lambda>j w. on_axes (map (Pair (length fs)) [0..<n] ! j) f w) js
           (w\<lparr>plt_figures := fs @ [g]\<rparr>) =
         w\<lparr>plt_figures := fs @ [g\<lparr>fig_axes := fold (\<lambda>j a. a[j := f (a ! j)]) js (fig_axes g)\<rparr>]\<rparr>"
  using assms
proof (induction js arbitrary: g)
  case Nil
  then show ?case by simp
next
  case (Cons j js)
  let ?g = "g\<lparr>fig_axes := (fig_axes g)[j := f (fig_axes g ! j)]\<rparr>"
  have "n = length (fig_axes ?g)" using Cons.prems by simp
  moreover have "\<forall>j \<in> set js. j < n" using Cons.prems by simp
  ultimately have ih: "fold (\<lambda>j w. on_axes (map (Pair (length fs)) [0..<n] ! j) f w) js
           (w\<lparr>plt_figures := fs @ [?g]\<rparr>) =
         w\<lparr>plt_figures := fs @ [?g\<lparr>fig_axes := fold (\<lambda>j a. a[j := f (a ! j)]) js (fig_axes ?g)\<rparr>]\<rparr>"
    by (rule Cons.IH)
  have j: "j < n" using Cons.prems by simp
  show ?case using ih j by (simp add: on_axes_last)
qed

lemma grid_dims:
  assumes "1 \<le> G"
  shows "0 < min 3 (int G)"
    and "0 < (int G + min 3 (int G) - 1) div min 3 (int G)"
    and "G \<le> nat ((int G + min 3 (int G) - 1) div min 3 (int G)) * nat (min 3 (int G))"
    and "G = 1 \<Longrightarrow> nat ((int G + min 3 (int G) - 1) div min 3 (int G)) * nat (min 3 (int G)) = 1"
proof -
  consider "G = 1" | "G = 2" | "3 \<le> G" using assms by linarith
  then have "0 < min 3 (int G) \<and> 0 < (int G + min 3 (int G) - 1) div min 3 (int G) \<and>
    G \<le> nat ((int G + min 3 (int G) - 1) div min 3 (int G)) * nat (min 3 (int G)) \<and>
    (G = 1 \<longrightarrow> nat ((int G + min 3 (int G) - 1) div min 3 (int G)) * nat (min 3 (int G)) = 1)"
  proof cases
    case 1
    then show ?thesis by simp
  next
    case 2
    then show ?thesis by simp
  next
    case 3
    then have m: "min 3 (int G) = 3" by simp
    have "int G \<le> ((int G + 2) div 3) * 3" by presburger
    moreover have "0 < (int G + 2) div 3" using 3 by presburger
    ultimately show ?thesis using 3 unfolding m by (simp add: nat_mult_distrib) linarith
  qed
  then show "0 < min 3 (int G)"
    and "0 < (int G + min 3 (int G) - 1) div min 3 (int G)"
    and "G \<le> nat ((int G + min 3 (int G) - 1) div min 3 (int G)) * nat (min 3 (int G))"
    and "G = 1 \<Longrightarrow> nat ((int G + min 3 (int G) - 1) div min 3 (int G)) * nat (min 3 (int G)) = 1"
    by simp_all
qed

lemma plot_subplots_zero:
  "plot_subplots w df cn kw sc dc [] =
     (w\<lparr>log_warnings := log_warnings w @ [large_number_warning 0]\<rparr>, Some ZeroDivisionError)"
  by (simp add: plot_subplots_def floordiv_def logger_warning_def)

lemma grid_slots_bounds:
  assumes "1 \<le> G"
  shows "G \<le> grid_slots G" and "G = 1 \<Longrightarrow> grid_slots G = 1"
  using grid_dims(3,4) [OF assms] by (simp_all add: grid_slots_def Let_def)

lemma fig_axes_blank: "fig_axes (blank_grid_figure G) = replicate (grid_slots G) new_axes"
  by (simp add: blank_grid_figure_def Let_def new_figure_def)

lemma plot_subplots_setup:
  assumes ne: "ss \<noteq> []"
  shows "plot_subplots w df cn kw sc dc ss =
     (case plot_each_subplot df cn kw sc dc
             (map (Pair (length (plt_figures w))) [0..<grid_slots (length ss)])
             (enumerate 0 ss) None
             (w\<lparr>log_warnings := log_warnings w @ [large_number_warning (length ss)]\<rparr>
               \<lparr>plt_figures := plt_figures w @ [blank_grid_figure (length ss)]\<rparr>) of
        (w', Inl e) \<Rightarrow> (w', Some e)
      | (w', Inr i) \<Rightarrow>
         (case hide_unused i (map (Pair (length (plt_figures w))) [0..<grid_slots (length ss)]) w' of
            (w', Inl e) \<Rightarrow> (w', Some e)
          | (w', Inr _) \<Rightarrow> (plt_tight_layout (plt_suptitle (figure_title cn) w'), None)))"
proof -
  define G where "G = length ss"
  define nc where "nc = min 3 (int G)"
  define nr where "nr = (int G + nc - 1) div nc"
  define w1 where "w1 = w\<lparr>log_warnings := log_warnings w @ [large_number_warning G]\<rparr>"
  define hs where "hs = map (Pair (length (plt_figures w))) [0..<grid_slots G]"
  have G1: "1 \<le> G" using ne by (cases ss) (auto simp: G_def)
  note d = grid_dims [OF G1, folded nc_def, folded nr_def]
  have fd: "floordiv (int G + nc - 1) nc = Inr nr"
    using d(1) by (simp add: floordiv_def nr_def)
  have slots: "nat nr * nat nc = grid_slots G"
    by (simp add: grid_slots_def Let_def nc_def nr_def)
  have blank: "new_figure (Some (15, 5 * nr)) (Some (nr, nc)) (replicate (grid_slots G) new_axes)
               = blank_grid_figure G"
    by (simp add: blank_grid_figure_def Let_def nc_def nr_def)
  have sub: "plt_subplots nr nc (15, 5 * nr) w1 =
             (w1\<lparr>plt_figures := plt_figures w @ [blank_grid_figure G]\<rparr>, hs)"
    by (simp add: plt_subplots_def Let_def slots blank hs_def w1_def)
  have axes: "(if 1 < int G then hs else take 1 hs) = hs"
    using grid_slots_bounds(2) [OF G1] G1 by (auto simp: hs_def)
  have "plot_subplots w df cn kw sc dc ss =
     (case floordiv (int G + nc - 1) nc of
           Inl e \<Rightarrow> (w1, Some e)
         | Inr n_rows \<Rightarrow>
            (case plt_subplots n_rows nc (15, 5 * n_rows) w1 of
               (w, axes) \<Rightarrow>
                (case plot_each_subplot df cn kw sc dc (if 1 < int G then axes else take 1 axes)
                        (enumerate 0 ss) None w of
                      (w, Inl e) \<Rightarrow> (w, Some e)
                    | (w, Inr i) \<Rightarrow>
                       (case hide_unused i (if 1 < int G then axes else take 1 axes) w of
                          (w, Inl e) \<Rightarrow> (w, Some e)
                        | (w, Inr _) \<Rightarrow>
                           (plt_tight_layout (plt_suptitle (figure_title cn) w), None)))))"
    unfolding plot_subplots_def Let_def G_def nc_def w1_def logger_warning_def ..
  also have "\<dots> = (case plot_each_subplot df cn kw sc dc hs (enumerate 0 ss) None
                         (w1\<lparr>plt_figures := plt_figures w @ [blank_grid_figure G]\<rparr>) of
        (w', Inl e) \<Rightarrow> (w', Some e)
      | (w', Inr i) \<Rightarrow>
         (case hide_unused i hs w' of
            (w', Inl e) \<Rightarrow> (w', Some e)
          | (w', Inr _) \<Rightarrow> (plt_tight_layout (plt_suptitle (figure_title cn) w'), None)))"
    unfolding fd sum.case sub prod.case axes ..
  finally show ?thesis unfolding hs_def w1_def G_def .
qed

lemma plot_subplots_keyerror:
  assumes dc: "dc \<in> set (df_columns df)" and cn: "cn \<notin> set (df_columns df)" and ne: "ss \<noteq> []"
  shows "plot_subplots w df cn kw sc dc ss =
     (w\<lparr>plt_figures := plt_figures w @ [blank_grid_figure (length ss)],
        log_warnings := log_warnings w @ [large_number_warning (length ss)]\<rparr>,
      Some (KeyError cn))"
proof -
  obtain s ss' where ss: "ss = s # ss'" using ne by (cases ss) auto
  have G: "1 \<le> length ss" using ne by (cases ss) auto
  have pos: "0 < grid_slots (length ss)" using grid_slots_bounds(1) [OF G] G by linarith
  have e: "enumerate 0 ss = (0, s) # enumerate 1 ss'" by (simp add: ss)
  show ?thesis
    unfolding plot_subplots_setup [OF ne] e
    using pos dc cn by (simp add: getitem_query getitem_query_missing)
qed

lemma plot_subplots_ok:
  assumes dc: "dc \<in> set (df_columns df)" and cn: "cn \<in> set (df_columns df)" and ne: "ss \<noteq> []"
  shows "plot_subplots w df cn kw sc dc ss =
     (w\<lparr>plt_figures := plt_figures w @ [grid_figure df cn kw sc dc ss],
        log_warnings := log_warnings w @ [large_number_warning (length ss)]\<rparr>,
      None)"
proof -
  define G where "G = length ss"
  define n where "n = grid_slots G"
  define w1 where "w1 = w\<lparr>log_warnings := log_warnings w @ [large_number_warning G]\<rparr>"
  define g0 where "g0 = blank_grid_figure G"
  define hs where "hs = map (Pair (length (plt_figures w))) [0..<n]"
  define g1 where "g1 = g0\<lparr>fig_axes := paint df cn kw sc dc 0 ss (fig_axes g0)\<rparr>"
  define g2 where "g2 = g1\<lparr>fig_axes :=
     fold (\<lambda>j a. a[j := set_visible False (a ! j)]) (unused_range (G - 1) n) (fig_axes g1)\<rparr>"
  have G1: "1 \<le> G" using ne by (cases ss) (auto simp: G_def)
  have Gn: "G \<le> n" using grid_slots_bounds(1) [OF G1] by (simp add: n_def)
  have len0: "length (fig_axes g0) = n" by (simp add: g0_def fig_axes_blank n_def)
  have len1: "length (fig_axes g1) = n" by (simp add: g1_def paint_length len0)
  have fs: "plt_figures w1 = plt_figures w" by (simp add: w1_def)
  have loop: "plot_each_subplot df cn kw sc dc hs (enumerate 0 ss) None
                (w1\<lparr>plt_figures := plt_figures w @ [g0]\<rparr>) =
              (w1\<lparr>plt_figures := plt_figures w @ [g1]\<rparr>, Inr (Some (G - 1)))"
    using subplot_loop [OF dc cn, of 0 ss g0 kw sc "plt_figures w" None w1] ne Gn
    by (simp add: hs_def len0 g1_def G_def)
  have hide: "hide_unused (Some (G - 1)) hs (w1\<lparr>plt_figures := plt_figures w @ [g1]\<rparr>) =
              (w1\<lparr>plt_figures := plt_figures w @ [g2]\<rparr>, Inr ())"
    using hide_fold [of n g1 "unused_range (G - 1) n" "plt_figures w" "set_visible False" w1]
    by (simp add: hide_unused_def hs_def len1 g2_def unused_range_def)
  have fin: "g2\<lparr>fig_suptitle := Some (figure_title cn), fig_tight := True\<rparr> = grid_figure df cn kw sc dc ss"
  proof -
    have "fig_axes g2 = map (\<lambda>j. if j < G then subplot_panel df cn kw sc dc (ss ! j) new_axes
                               else set_visible False new_axes) [0..<n]"
    proof (rule nth_equalityI)
      show "length (fig_axes g2) = length (map (\<lambda>j. if j < G then subplot_panel df cn kw sc dc (ss ! j) new_axes
                               else set_visible False new_axes) [0..<n])"
        by (simp add: g2_def update_fold_length len1)
    next
      fix j assume "j < length (fig_axes g2)"
      then have j: "j < n" by (simp add: g2_def update_fold_length len1)
      have p: "fig_axes g1 ! j = (if j < G then subplot_panel df cn kw sc dc (ss ! j) new_axes else new_axes)"
        using j len0 by (simp add: g1_def paint_nth G_def) (simp add: g0_def fig_axes_blank n_def)
      have "fig_axes g2 ! j = (if j \<in> set (unused_range (G - 1) n) then set_visible False (fig_axes g1 ! j)
                               else fig_axes g1 ! j)"
        using j by (simp add: g2_def update_fold_nth len1 unused_range_def)
      also have "\<dots> = (if j < G then subplot_panel df cn kw sc dc (ss ! j) new_axes
                               else set_visible False new_axes)"
        using j G1 p by (auto simp: unused_range_def)
      finally show "fig_axes g2 ! j = map (\<lambda>j. if j < G then subplot_panel df cn kw sc dc (ss ! j) new_axes
                               else set_visible False new_axes) [0..<n] ! j"
        using j by simp
    qed
    then show ?thesis
      by (simp add: grid_figure_def g2_def g1_def g0_def G_def n_def)
  qed
  have "plot_subplots w df cn kw sc dc ss =
          (plt_tight_layout (plt_suptitle (figure_title cn) (w1\<lparr>plt_figures := plt_figures w @ [g2]\<rparr>)), None)"
    unfolding plot_subplots_setup [OF ne] G_def [symmetric] n_def [symmetric] hs_def [symmetric]
      w1_def [symmetric] g0_def [symmetric] loop prod.case sum.case hide ..
  also have "\<dots> = (w1\<lparr>plt_figures := plt_figures w @ [g2\<lparr>fig_suptitle := Some (figure_title cn), fig_tight := True\<rparr>]\<rparr>, None)"
    by (simp add: plt_tight_layout_def plt_suptitle_def on_gcf_last)
  finally show ?thesis
    unfolding fin by (simp add: w1_def G_def)
qed

lemma on_gca_empty: "fig_axes g = [] \<Longrightarrow> on_gca f g = g\<lparr>fig_axes := [f new_axes]\<rparr>"
  by (simp add: on_gca_def)

lemma on_gca_single: "fig_axes g = [a] \<Longrightarrow> on_gca f g = g\<lparr>fig_axes := [f a]\<rparr>"
  by (simp add: on_gca_def)

lemma line_loop_keyerror:
  assumes "dc \<in> set (df_columns df)" and "cn \<notin> set (df_columns df)" and "ss \<noteq> []"
  shows "plot_each_line df cn kw sc dc ss w = (w, Inl (KeyError cn))"
  using assms by (cases ss) (simp_all add: getitem_query getitem_query_missing)

lemma line_loop_typeerror:
  assumes "dc \<in> set (df_columns df)" and "cn \<in> set (df_columns df)" and "ss \<noteq> []"
    and "''label'' \<in> fst ` set kw"
  shows "plot_each_line df cn kw sc dc ss w = (w, Inl (TypeError ''label''))"
  using assms by (cases ss) (simp_all add: getitem_query)

lemma line_loop_single:
  assumes "dc \<in> set (df_columns df)" and "cn \<in> set (df_columns df)"
    and "''label'' \<notin> fst ` set kw" and "fig_axes g = [a]"
  shows "plot_each_line df cn kw sc dc ss (w\<lparr>plt_figures := fs @ [g]\<rparr>) =
         (w\<lparr>plt_figures := fs @
             [g\<lparr>fig_axes := [a\<lparr>ax_lines := ax_lines a @ map (symbol_line df cn kw sc dc) ss\<rparr>]\<rparr>]\<rparr>,
          Inr ())"
  using assms(4)
proof (induction ss arbitrary: g a)
  case Nil
  then show ?case by simp
next
  case (Cons s ss)
  let ?a = "ax_plot (column_where df dc sc s) (column_where df cn sc s) (Some s) kw a"
  have "fig_axes (g\<lparr>fig_axes := [?a]\<rparr>) = [?a]" by simp
  from Cons.IH [OF this] show ?case
    using assms(1-3) Cons.prems
    by (simp add: getitem_query plt_plot_def on_gcf_last on_gca_single ax_plot_def symbol_line_def)
qed

lemma line_loop_fresh:
  assumes "dc \<in> set (df_columns df)" and "cn \<in> set (df_columns df)"
    and "''label'' \<notin> fst ` set kw" and "fig_axes g = []" and "ss \<noteq> []"
  shows "plot_each_line df cn kw sc dc ss (w\<lparr>plt_figures := fs @ [g]\<rparr>) =
         (w\<lparr>plt_figures := fs @
             [g\<lparr>fig_axes := [new_axes\<lparr>ax_lines := map (symbol_line df cn kw sc dc) ss\<rparr>]\<rparr>]\<rparr>,
          Inr ())"
proof -
  obtain s ss' where ss: "ss = s # ss'" using assms(5) by (cases ss) auto
  let ?a = "ax_plot (column_where df dc sc s) (column_where df cn sc s) (Some s) kw new_axes"
  have "fig_axes (g\<lparr>fig_axes := [?a]\<rparr>) = [?a]" by simp
  from line_loop_single [OF assms(1-3) this, where ss=ss' and w=w and fs=fs and sc=sc] show ?thesis
    using assms(1-4)
    by (simp add: ss getitem_query plt_plot_def on_gcf_last on_gca_empty ax_plot_def
        symbol_line_def new_axes_def)
qed

lemma plot_single_empty:
  "plot_single w df cn kw sc dc [] =
     (w\<lparr>plt_figures := plt_figures w @ [single_figure df cn kw sc dc []]\<rparr>, None)"
  by (simp add: plot_single_def plt_figure_def plt_title_def plt_xlabel_def plt_ylabel_def
      plt_grid_def plt_legend_def plt_xticks_rotation_def plt_tight_layout_def on_gcf_last
      on_gca_empty on_gca_single new_figure_def single_figure_def new_axes_def
      set_title_def set_xlabel_def set_ylabel_def grid_def legend_def tick_params_x_rotation_def)

lemma plot_single_ok:
  assumes "dc \<in> set (df_columns df)" and "cn \<in> set (df_columns df)"
    and "''label'' \<notin> fst ` set kw"
  shows "plot_single w df cn kw sc dc ss =
     (w\<lparr>plt_figures := plt_figures w @ [single_figure df cn kw sc dc ss]\<rparr>, None)"
proof (cases "ss = []")
  case True
  then show ?thesis by (simp add: plot_single_empty)
next
  case False
  have "fig_axes (new_figure (Some (10, 6)) None []) = []" by (simp add: new_figure_def)
  from line_loop_fresh [OF assms this False, where w=w and fs="plt_figures w" and sc=sc] show ?thesis
    by (simp add: plot_single_def plt_figure_def plt_title_def plt_xlabel_def plt_ylabel_def
      plt_grid_def plt_legend_def plt_xticks_rotation_def plt_tight_layout_def on_gcf_last
      on_gca_single new_figure_def single_figure_def new_axes_def
      set_title_def set_xlabel_def set_ylabel_def grid_def legend_def tick_params_x_rotation_def)
qed

lemma plot_single_keyerror:
  assumes "dc \<in> set (df_columns df)" and "cn \<notin> set (df_columns df)" and "ss \<noteq> []"
  shows "plot_single w df cn kw sc dc ss =
     (w\<lparr>plt_figures := plt_figures w @ [new_figure (Some (10, 6)) None []]\<rparr>, Some (KeyError cn))"
  by (simp add: plot_single_def plt_figure_def line_loop_keyerror [OF assms])

lemma plot_single_typeerror:
  assumes "dc \<in> set (df_columns df)" and "cn \<in> set (df_columns df)" and "ss \<noteq> []"
    and "''label'' \<in> fst ` set kw"
  shows "plot_single w df cn kw sc dc ss =
     (w\<lparr>plt_figures := plt_figures w @ [new_figure (Some (10, 6)) None []]\<rparr>,
      Some (TypeError ''label''))"
  by (simp add: plot_single_def plt_figure_def line_loop_typeerror [OF assms])





lemma first_index_less: "a \<in> set pre \<Longrightarrow> first_index a pre < length pre"
  by (induction pre) auto

lemma first_index_append_in: "a \<in> set pre \<Longrightarrow> first_index a (pre @ r) = first_index a pre"
  by (induction pre) auto

lemma first_index_append_notin:
  "a \<notin> set pre \<Longrightarrow> first_index a (pre @ r) = length pre + first_index a r"
  by (induction pre) auto

lemma unique_acc_order:
  assumes "set seen = set pre"
    and "sorted_wrt (\<lambda>a b. first_index a (pre @ xs) < first_index b (pre @ xs)) seen"
  shows "sorted_wrt (\<lambda>a b. first_index a (pre @ xs) < first_index b (pre @ xs)) (unique_acc seen xs)"
  using assms
proof (induction xs arbitrary: seen pre)
  case Nil
  then show ?case by simp
next
  case (Cons x xs)
  have col: "(pre @ [x]) @ xs = pre @ x # xs" by simp
  show ?case
  proof (cases "x \<in> set seen")
    case True
    then have "set seen = set (pre @ [x])" using Cons.prems(1) by auto
    from Cons.IH [OF this] Cons.prems(2) True show ?thesis unfolding col by simp
  next
    case False
    then have x: "x \<notin> set pre" using Cons.prems(1) by simp
    have s: "set (seen @ [x]) = set (pre @ [x])" using Cons.prems(1) by simp
    have "\<forall>a \<in> set seen. first_index a (pre @ x # xs) < first_index x (pre @ x # xs)"
      using Cons.prems(1) x
      by (simp add: first_index_append_in first_index_append_notin first_index_less)
    then have "sorted_wrt (\<lambda>a b. first_index a (pre @ x # xs) < first_index b (pre @ x # xs)) (seen @ [x])"
      using Cons.prems(2) by (simp add: sorted_wrt_append)
    from Cons.IH [OF s] this False show ?thesis unfolding col by simp
  qed
qed

lemma unique_order: "sorted_wrt (\<lambda>a b. first_index a xs < first_index b xs) (unique xs)"
  using unique_acc_order [of "[]" "[]" xs] by (simp add: unique_def)

lemma plot_column_branches:
  assumes "dc \<in> set (df_columns df)" and "sc \<in> set (df_columns df)"
  shows "plot_column w df cn kwo T sc dc =
     (if T < int (length (symbols df sc))
      then plot_subplots w df cn (kwargs_of kwo) sc dc (symbols df sc)
      else plot_single w df cn (kwargs_of kwo) sc dc (symbols df sc))"
  using assms by (simp add: plot_column_def getitem_def symbols_def kwargs_of_def Let_def)

lemma plot_column_effect:
  "plot_column w df cn kwo T sc dc =
     (case render_effect df cn (kwargs_of kwo) T sc dc of
        (F, L, e) \<Rightarrow> (w\<lparr>plt_figures := plt_figures w @ F, log_warnings := log_warnings w @ L\<rparr>, e))"
proof (cases "dc \<notin> set (df_columns df) \<or> sc \<notin> set (df_columns df)")
  case True
  then show ?thesis by (auto simp: plot_column_def render_effect_def Let_def)
next
  case False
  then have dc: "dc \<in> set (df_columns df)" and sc: "sc \<in> set (df_columns df)" by simp_all
  show ?thesis
  proof (cases "T < int (length (symbols df sc))")
    case grid: True
    show ?thesis
    proof (cases "symbols df sc = []")
      case True
      then show ?thesis using grid dc sc
        by (simp add: plot_column_branches render_effect_def Let_def plot_subplots_zero)
    next
      case ne: False
      show ?thesis
      proof (cases "cn \<in> set (df_columns df)")
        case True
        then show ?thesis using grid dc sc ne
          by (simp add: plot_column_branches render_effect_def Let_def plot_subplots_ok)
      next
        case False
        then show ?thesis using grid dc sc ne
          by (simp add: plot_column_branches render_effect_def Let_def plot_subplots_keyerror)
      qed
    qed
  next
    case single: False
    show ?thesis
    proof (cases "symbols df sc = []")
      case True
      then show ?thesis using single dc sc
        by (simp add: plot_column_branches render_effect_def Let_def plot_single_empty)
    next
      case ne: False
      show ?thesis
      proof (cases "cn \<in> set (df_columns df)")
        case cn: True
        show ?thesis
        proof (cases "''label'' \<in> fst ` set (kwargs_of kwo)")
          case True
          then show ?thesis using single dc sc ne cn
            by (simp add: plot_column_branches render_effect_def Let_def plot_single_typeerror)
        next
          case False
          then show ?thesis using single dc sc ne cn
            by (simp add: plot_column_branches render_effect_def Let_def plot_single_ok)
        qed
      next
        case False
        then show ?thesis using single dc sc ne
          by (simp add: plot_column_branches render_effect_def Let_def plot_single_keyerror)
      qed
    qed
  qed
qed

lemma drawn_effect [simp]:
  "drawn w (w\<lparr>plt_figures := plt_figures w @ F, log_warnings := L\<rparr>) = F"
  by (simp add: drawn_def)

lemma logged_effect [simp]:
  "logged w (w\<lparr>plt_figures := F, log_warnings := log_warnings w @ L\<rparr>) = L"
  by (simp add: logged_def)

lemma symbols_prices: "symbols (prices cols) ''symbol'' = [Str ''MSFT'', Str ''AAPL'']"
  by (simp add: symbols_def prices_def row_def unique_def)

lemma symbols_numbered_0: "symbols (numbered 0 cols) ''symbol'' = []"
  by (simp add: symbols_def numbered_def unique_def)







lemma drawn_plot_column:
  "drawn w (fst (plot_column w df cn kwo T sc dc)) = fst (render_effect df cn (kwargs_of kwo) T sc dc)"
  unfolding plot_column_effect by (simp add: drawn_def split: prod.splits)

lemma logged_plot_column:
  "logged w (fst (plot_column w df cn kwo T sc dc)) =
   fst (snd (render_effect df cn (kwargs_of kwo) T sc dc))"
  unfolding plot_column_effect by (simp add: logged_def split: prod.splits)

lemma outcome_plot_column:
  "snd (plot_column w df cn kwo T sc dc) = snd (snd (render_effect df cn (kwargs_of kwo) T sc dc))"
  unfolding plot_column_effect by (simp split: prod.splits)




lemma never_unbound:
  "snd (plot_column w df cn kwo T sc dc) \<noteq> Some (UnboundLocalError name)"
  unfolding outcome_plot_column by (simp add: render_effect_def Let_def)

lemma subplot_loop_index:
  "plot_each_subplot df cn kw sc dc axes es i0 w = (w', Inr i) \<Longrightarrow>
   i = (if es = [] then i0 else Some (fst (last es)))"
proof (induction es arbitrary: i0 w)
  case Nil
  then show ?case by simp
next
  case (Cons e es)
  obtain k s where e: "e = (k, s)" by (cases e)
  from Cons.prems obtain w1 where
    "plot_each_subplot df cn kw sc dc axes es (Some k) w1 = (w', Inr i)"
    unfolding e by (auto simp: Let_def split: if_splits sum.splits)
  from Cons.IH [OF this] show ?case by (simp add: e)
qed

lemma enumerate_eq_Nil: "(enumerate k ss = []) = (ss = [])"
  by (cases ss) simp_all

lemma last_enumerate:
  "ss \<noteq> [] \<Longrightarrow> fst (last (enumerate k ss)) = k + length ss - 1"
proof (induction ss arbitrary: k)
  case Nil
  then show ?case by simp
next
  case (Cons s ss)
  show ?case
  proof (cases "ss = []")
    case True
    then show ?thesis by simp
  next
    case False
    then have "enumerate (Suc k) ss \<noteq> []" by (simp add: enumerate_eq_Nil)
    then show ?thesis using Cons.IH [OF False, of "Suc k"] by simp
  qed
qed

lemma numbered_4_loop:
  "snd (plot_each_subplot (numbered 4 [''datetime'', ''symbol'', ''price'']) ''price'' []
          ''symbol'' ''datetime'' (map (Pair 0) [0..<6])
          (enumerate 0 [Num 0, Num 1, Num 2, Num 3]) None
          (fst (plt_subplots 2 3 (15, 10) no_figures))) = Inr (Some 3)"
  by code_simp





lemma lines_subplot_panel:
  "ax_lines (subplot_panel df cn kw sc dc s new_axes) =
     [\<lparr>ln_x = column_where df dc sc s, ln_y = column_where df cn sc s, ln_label = None,
       ln_kwargs = kw\<rparr>]"
  by (simp add: subplot_panel_def tick_params_x_rotation_def grid_def set_ylabel_def
      set_xlabel_def set_title_def ax_plot_def new_axes_def)

lemma title_subplot_panel: "ax_title (subplot_panel df cn kw sc dc s new_axes) = Some (str s)"
  by (simp add: subplot_panel_def tick_params_x_rotation_def grid_def set_ylabel_def
      set_xlabel_def set_title_def ax_plot_def new_axes_def)


lemma upt_split: "G \<le> n \<Longrightarrow> [0..<n] = [0..<G] @ [G..<n]"
  by (metis le_add_diff_inverse upt_add_eq_append zero_le)

lemma fig_axes_grid_split:
  assumes "length ss \<le> grid_slots (length ss)"
  shows "fig_axes (grid_figure df cn kw sc dc ss) =
           map (\<lambda>s. subplot_panel df cn kw sc dc s new_axes) ss @
           replicate (grid_slots (length ss) - length ss) (set_visible False new_axes)"
proof -
  have a: "map (\<lambda>j. if j < length ss then subplot_panel df cn kw sc dc (ss ! j) new_axes
                     else set_visible False new_axes) [0..<length ss] =
           map (\<lambda>s. subplot_panel df cn kw sc dc s new_axes) ss"
    by (rule nth_equalityI) simp_all
  have b: "map (\<lambda>j. if j < length ss then subplot_panel df cn kw sc dc (ss ! j) new_axes
                     else set_visible False new_axes) [length ss..<grid_slots (length ss)] =
           replicate (grid_slots (length ss) - length ss) (set_visible False new_axes)"
    by (rule nth_equalityI) simp_all
  show ?thesis
    unfolding grid_figure_def using a b by (simp add: upt_split [OF assms])
qed

lemma grid_slots_ge: "length ss \<le> grid_slots (length ss)"
proof (cases "ss = []")
  case True
  then show ?thesis by simp
next
  case False
  then have "1 \<le> length ss" by (cases ss) simp_all
  then show ?thesis by (rule grid_slots_bounds(1))
qed






lemma all_lines_single:
  "all_lines [single_figure df cn kw sc dc ss] = map (symbol_line df cn kw sc dc) ss"
  by (simp add: all_lines_def single_figure_def)



lemma take_grid_panels:
  "take (length ss) (fig_axes (grid_figure df cn kw sc dc ss)) =
     map (\<lambda>s. subplot_panel df cn kw sc dc s new_axes) ss"
  by (simp add: fig_axes_grid_split [OF grid_slots_ge])

lemma returned_normally:
  assumes "snd (snd (render_effect df cn kw T sc dc)) = None"
  shows "fst (render_effect df cn kw T sc dc) =
           (if T < int (length (symbols df sc)) then [grid_figure df cn kw sc dc (symbols df sc)]
            else [single_figure df cn kw sc dc (symbols df sc)])"
  using assms by (auto simp: render_effect_def Let_def split: if_splits)

section \<open>The claims\<close>

text \<open>
  C1. When the configured time column or the configured group column is not among the
  frame's columns, the call raises the missing-column error (\<open>ValueError\<close> in the
  source) and leaves the drawing state and the log exactly as they were: the check
  comes before any drawing and before any other work.
\<close>

theorem missing_column_fails_first:
  assumes "datetime_column \<notin> set (df_columns df) \<or> symbol_column \<notin> set (df_columns df)"
  shows "\<exists>msg. plot_column w df column_name plot_kwargs subplot_threshold symbol_column
                 datetime_column = (w, Some (ValueError msg))"
  using assms by (auto simp: plot_column_def)

theorem missing_column_fails_first_witness:
  "''datetime'' \<notin> set (df_columns (prices [''symbol'', ''price''])) \<and>
   (\<exists>msg. plot_column one_figure (prices [''symbol'', ''price'']) ''price'' None 10 ''symbol''
             ''datetime'' = (one_figure, Some (ValueError msg)))"
proof -
  have h: "''datetime'' \<notin> set (df_columns (prices [''symbol'', ''price''])) \<or>
    ''symbol'' \<notin> set (df_columns (prices [''symbol'', ''price'']))"
    by (simp add: prices_def)
  from missing_column_fails_first [OF h] show ?thesis by (simp add: prices_def)
qed

text \<open>
  C10. Whatever names were configured for the time and group columns, the message of
  the missing-column error is the same literal text, naming \<open>'datetime'\<close> and
  \<open>'symbol'\<close>; the configured names are checked but not reported.
\<close>

theorem missing_column_message_is_fixed:
  assumes "datetime_column \<notin> set (df_columns df) \<or> symbol_column \<notin> set (df_columns df)"
  shows "snd (plot_column w df column_name plot_kwargs subplot_threshold symbol_column
                datetime_column) =
         Some (ValueError ''DataFrame must have 'datetime' and 'symbol' columns'')"
  using assms by (auto simp: plot_column_def missing_columns_message_def)

theorem missing_column_message_is_fixed_witness:
  "''ticker'' \<notin> set (df_columns (prices [''ts'', ''price''])) \<and>
   snd (plot_column no_figures (prices [''ts'', ''price'']) ''price'' None 10 ''ticker'' ''ts'') =
     Some (ValueError ''DataFrame must have 'datetime' and 'symbol' columns'')"
proof -
  have h: "''ts'' \<notin> set (df_columns (prices [''ts'', ''price''])) \<or>
    ''ticker'' \<notin> set (df_columns (prices [''ts'', ''price'']))"
    by (simp add: prices_def)
  from missing_column_message_is_fixed [OF h] show ?thesis by (simp add: prices_def)
qed



text \<open>
  C8. The outcome of a call, the figures it adds (layout, panels, lines, titles,
  labels) and the warnings it logs depend on its arguments only, not on the drawing
  state it starts from; the figures that existed before are left as they were.
\<close>

theorem render_is_deterministic:
  "snd (plot_column w1 df column_name plot_kwargs subplot_threshold symbol_column datetime_column) =
   snd (plot_column w2 df column_name plot_kwargs subplot_threshold symbol_column datetime_column) \<and>
   drawn w1 (fst (plot_column w1 df column_name plot_kwargs subplot_threshold symbol_column
                    datetime_column)) =
   drawn w2 (fst (plot_column w2 df column_name plot_kwargs subplot_threshold symbol_column
                    datetime_column)) \<and>
   logged w1 (fst (plot_column w1 df column_name plot_kwargs subplot_threshold symbol_column
                    datetime_column)) =
   logged w2 (fst (plot_column w2 df column_name plot_kwargs subplot_threshold symbol_column
                    datetime_column)) \<and>
   take (length (plt_figures w1))
     (plt_figures (fst (plot_column w1 df column_name plot_kwargs subplot_threshold symbol_column
                          datetime_column))) = plt_figures w1"
  unfolding plot_column_effect
  by (simp add: drawn_def logged_def split: prod.splits)

theorem render_is_deterministic_witness:
  "snd (plot_column no_figures (prices [''datetime'', ''symbol'', ''price'']) ''price'' None 10
          ''symbol'' ''datetime'') =
   snd (plot_column one_figure (prices [''datetime'', ''symbol'', ''price'']) ''price'' None 10
          ''symbol'' ''datetime'') \<and>
   drawn no_figures (fst (plot_column no_figures (prices [''datetime'', ''symbol'', ''price''])
          ''price'' None 10 ''symbol'' ''datetime'')) =
   drawn one_figure (fst (plot_column one_figure (prices [''datetime'', ''symbol'', ''price''])
          ''price'' None 10 ''symbol'' ''datetime'')) \<and>
   no_figures \<noteq> one_figure"
  using render_is_deterministic [of no_figures "prices [''datetime'', ''symbol'', ''price'']"
      "''price''" None 10 "''symbol''" "''datetime''" one_figure]
  by (simp add: no_figures_def one_figure_def)



text \<open>
  C9, as stated, fails: with no rows and threshold -1 the grid branch is taken with zero
  groups, and the call fails with \<open>ZeroDivisionError\<close>, not with the unbound loop
  variable of the hide step.
\<close>

theorem no_groups_grid_unbound_counterexample:
  "symbols (numbered 0 [''datetime'', ''symbol'', ''price'']) ''symbol'' = [] \<and>
   snd (plot_column no_figures (numbered 0 [''datetime'', ''symbol'', ''price'']) ''price'' None (- 1)
          ''symbol'' ''datetime'') = Some ZeroDivisionError \<and>
   snd (plot_column no_figures (numbered 0 [''datetime'', ''symbol'', ''price'']) ''price'' None (- 1)
          ''symbol'' ''datetime'') \<noteq> Some (UnboundLocalError ''i'')"
  unfolding outcome_plot_column
  by (simp add: render_effect_def symbols_numbered_0) (simp add: numbered_def)

text \<open>
  C9, amended. If the grid branch is taken while the frame has no distinct group value
  (which needs a negative threshold), the call logs the warning and then fails with
  \<open>ZeroDivisionError\<close> at the row-count computation of line 47, the column count being
  0: no figure is allocated and neither loop is reached. The error is not the
  missing-column error, and no call ever fails on the unbound loop variable.
\<close>

theorem no_groups_grid_divides_by_zero:
  assumes "datetime_column \<in> set (df_columns df)" and "symbol_column \<in> set (df_columns df)"
    and "symbols df symbol_column = []" and "subplot_threshold < 0"
  shows "plot_column w df column_name plot_kwargs subplot_threshold symbol_column datetime_column =
           (w\<lparr>log_warnings := log_warnings w @ [large_number_warning 0]\<rparr>, Some ZeroDivisionError) \<and>
         floordiv (int (length (symbols df symbol_column)) +
                   min 3 (int (length (symbols df symbol_column))) - 1)
                  (min 3 (int (length (symbols df symbol_column)))) = Inl ZeroDivisionError \<and>
         (\<forall>name. snd (plot_column w df column_name plot_kwargs subplot_threshold symbol_column
                         datetime_column) \<noteq> Some (UnboundLocalError name)) \<and>
         (\<forall>msg. snd (plot_column w df column_name plot_kwargs subplot_threshold symbol_column
                        datetime_column) \<noteq> Some (ValueError msg))"
  using assms
  by (simp add: plot_column_branches plot_subplots_zero floordiv_def)

theorem no_groups_grid_divides_by_zero_witness:
  "''datetime'' \<in> set (df_columns (numbered 0 [''datetime'', ''symbol'', ''price''])) \<and>
   ''symbol'' \<in> set (df_columns (numbered 0 [''datetime'', ''symbol'', ''price''])) \<and>
   symbols (numbered 0 [''datetime'', ''symbol'', ''price'']) ''symbol'' = [] \<and>
   plot_column no_figures (numbered 0 [''datetime'', ''symbol'', ''price'']) ''price'' None (- 1)
       ''symbol'' ''datetime'' =
     (no_figures\<lparr>log_warnings :=
         [''Large number of symbols (0). Switching to subplot view for better visibility.'']\<rparr>,
      Some ZeroDivisionError)"
proof -
  let ?df = "numbered 0 [''datetime'', ''symbol'', ''price'']"
  have h: "''datetime'' \<in> set (df_columns ?df)" "''symbol'' \<in> set (df_columns ?df)"
    by (simp_all add: numbered_def)
  have e: "symbols ?df ''symbol'' = []" by (rule symbols_numbered_0)
  have t: "(- 1 :: int) < 0" by simp
  from no_groups_grid_divides_by_zero [OF h e t, of no_figures "''price''" None] h e
  show ?thesis
    by (simp add: large_number_warning_def str_int_def str_nat.simps no_figures_def)
qed

text \<open>
  C5. In the grid branch with G \<ge> 1 groups, once the per-group loop has run to its end,
  the loop variable it leaves is bound to G - 1, so the slots the hide step visits,
  \<open>range(i + 1, len(axes))\<close>, are the explicitly computed range from G up to
  rows * columns, and the hide step has the same effect as the explicit one. The
  premises are the statements of lines 45-63 on the path to the hide step.
\<close>

theorem leaked_index_matches_explicit_range:
  assumes "syms \<noteq> []"
    and "n_cols = min 3 (int (length syms))"
    and "floordiv (int (length syms) + n_cols - 1) n_cols = Inr n_rows"
    and "plt_subplots n_rows n_cols figsize w0 = (w1, hs)"
    and "axes = (if 1 < int (length syms) then hs else take 1 hs)"
    and "plot_each_subplot df column_name plot_kwargs symbol_column datetime_column axes
           (enumerate 0 syms) None w1 = (w2, Inr i)"
  shows "i = Some (length syms - 1) \<and>
         unused_range (length syms - 1) (length axes) =
           unused_range_explicit (length syms) (nat n_rows) (nat n_cols) \<and>
         hide_unused i axes w2 =
           hide_unused_explicit (length syms) (nat n_rows) (nat n_cols) axes w2"
proof -
  have G: "1 \<le> length syms" using assms(1) by (cases syms) simp_all
  note d = grid_dims [OF G]
  have nr: "n_rows = (int (length syms) + n_cols - 1) div n_cols"
    using assms(3) by (simp add: floordiv_def split: if_splits)
  have hs: "length hs = nat n_rows * nat n_cols"
    using assms(4) by (auto simp: plt_subplots_def Let_def)
  have "length syms = 1 \<Longrightarrow> nat n_rows * nat n_cols = 1"
    using d(4) unfolding nr assms(2) by simp
  then have len: "length axes = nat n_rows * nat n_cols"
    using G hs unfolding assms(5) by (cases "length syms = 1") auto
  have i: "i = Some (length syms - 1)"
    using subplot_loop_index [OF assms(6)] assms(1) by (simp add: last_enumerate enumerate_eq_Nil)
  have r: "unused_range (length syms - 1) (length axes) =
           unused_range_explicit (length syms) (nat n_rows) (nat n_cols)"
  proof -
    have "length syms - 1 + 1 = length syms" using G by simp
    then show ?thesis
      unfolding unused_range_def unused_range_explicit_def len by simp
  qed
  show ?thesis
    using i r by (simp add: hide_unused_def hide_unused_explicit_def)
qed

theorem leaked_index_matches_explicit_range_witness:
  "snd (plot_each_subplot (numbered 4 [''datetime'', ''symbol'', ''price'']) ''price'' []
          ''symbol'' ''datetime'' (map (Pair 0) [0..<6])
          (enumerate 0 [Num 0, Num 1, Num 2, Num 3]) None
          (fst (plt_subplots 2 3 (15, 10) no_figures))) = Inr (Some 3) \<and>
   unused_range 3 6 = [4, 5] \<and>
   unused_range_explicit 4 2 3 = [4, 5]"
proof -
  let ?df = "numbered 4 [''datetime'', ''symbol'', ''price'']"
  let ?ss = "[Num 0, Num 1, Num 2, Num 3]"
  let ?w1 = "fst (plt_subplots 2 3 (15, 10) no_figures)"
  let ?hs = "map (Pair 0) [0..<6]"
  let ?run = "plot_each_subplot ?df ''price'' [] ''symbol'' ''datetime'' ?hs (enumerate 0 ?ss) None ?w1"
  have a1: "?ss \<noteq> []" by simp
  have a2: "(3::int) = min 3 (int (length ?ss))" by simp
  have a3: "floordiv (int (length ?ss) + 3 - 1) 3 = Inr 2" by (simp add: floordiv_def)
  have a4: "plt_subplots 2 3 (15, 10) no_figures = (?w1, ?hs)"
    by (simp add: plt_subplots_def Let_def no_figures_def)
  have a5: "?hs = (if 1 < int (length ?ss) then ?hs else take 1 ?hs)" by simp
  have a6: "?run = (fst ?run, Inr (Some 3))"
    using numbered_4_loop by (simp add: prod_eq_iff)
  from leaked_index_matches_explicit_range [OF a1 a2 a3 a4 a5 a6] numbered_4_loop
  show ?thesis by (simp add: unused_range_def unused_range_explicit_def upt_rec)
qed







text \<open>
  C7. Whenever a call returns, the distinct group values it has drawn are those of
  \<open>unique()\<close>, in the order in which they first occur in the group column (not
  sorted). In the grid branch panel k is titled with, and holds the one series of, the
  k-th of them; in the combined branch the lines on the single panel are, in drawing
  order, the series of these values, each labelled with its group value.
\<close>

theorem groups_drawn_in_first_seen_order:
  assumes "datetime_column \<in> set (df_columns df)" and "symbol_column \<in> set (df_columns df)"
    and "plot_column w df column_name plot_kwargs subplot_threshold symbol_column datetime_column =
           (w', None)"
  shows
   "symbols df symbol_column = unique (map (\<lambda>r. r symbol_column) (df_rows df)) \<and>
    sorted_wrt (\<lambda>a b. first_index a (map (\<lambda>r. r symbol_column) (df_rows df)) <
                       first_index b (map (\<lambda>r. r symbol_column) (df_rows df)))
      (symbols df symbol_column) \<and>
    (subplot_threshold < int (length (symbols df symbol_column)) \<longrightarrow>
       (\<exists>fig. drawn w w' = [fig] \<and>
          map ax_title (take (length (symbols df symbol_column)) (fig_axes fig)) =
            map (\<lambda>s. Some (str s)) (symbols df symbol_column) \<and>
          map ax_lines (take (length (symbols df symbol_column)) (fig_axes fig)) =
            map (\<lambda>s. [\<lparr>ln_x = map (\<lambda>r. r datetime_column)
                                  (filter (\<lambda>r. r symbol_column = s) (df_rows df)),
                         ln_y = map (\<lambda>r. r column_name)
                                  (filter (\<lambda>r. r symbol_column = s) (df_rows df)),
                         ln_label = None, ln_kwargs = kwargs_of plot_kwargs\<rparr>])
              (symbols df symbol_column))) \<and>
    (int (length (symbols df symbol_column)) \<le> subplot_threshold \<longrightarrow>
       (\<exists>fig ax. drawn w w' = [fig] \<and> fig_axes fig = [ax] \<and>
          ax_lines ax =
            map (\<lambda>s. \<lparr>ln_x = map (\<lambda>r. r datetime_column)
                                  (filter (\<lambda>r. r symbol_column = s) (df_rows df)),
                        ln_y = map (\<lambda>r. r column_name)
                                  (filter (\<lambda>r. r symbol_column = s) (df_rows df)),
                        ln_label = Some s, ln_kwargs = kwargs_of plot_kwargs\<rparr>)
              (symbols df symbol_column) \<and>
          map ln_label (ax_lines ax) = map Some (symbols df symbol_column)))"
proof -
  let ?run = "plot_column w df column_name plot_kwargs subplot_threshold symbol_column datetime_column"
  let ?ss = "symbols df symbol_column"
  let ?kw = "kwargs_of plot_kwargs"
  have w': "w' = fst ?run" and ok: "snd ?run = None" using assms(3) by simp_all
  have d: "drawn w w' =
      (if subplot_threshold < int (length ?ss)
       then [grid_figure df column_name ?kw symbol_column datetime_column ?ss]
       else [single_figure df column_name ?kw symbol_column datetime_column ?ss])"
    unfolding w' drawn_plot_column using ok unfolding outcome_plot_column
    by (rule returned_normally)
  have order: "sorted_wrt (\<lambda>a b. first_index a (map (\<lambda>r. r symbol_column) (df_rows df)) <
                       first_index b (map (\<lambda>r. r symbol_column) (df_rows df))) ?ss"
    unfolding symbols_def by (rule unique_order)
  have grid: "subplot_threshold < int (length ?ss) \<longrightarrow>
       (\<exists>fig. drawn w w' = [fig] \<and>
          map ax_title (take (length ?ss) (fig_axes fig)) = map (\<lambda>s. Some (str s)) ?ss \<and>
          map ax_lines (take (length ?ss) (fig_axes fig)) =
            map (\<lambda>s. [\<lparr>ln_x = map (\<lambda>r. r datetime_column)
                                  (filter (\<lambda>r. r symbol_column = s) (df_rows df)),
                         ln_y = map (\<lambda>r. r column_name)
                                  (filter (\<lambda>r. r symbol_column = s) (df_rows df)),
                         ln_label = None, ln_kwargs = ?kw\<rparr>]) ?ss)"
    by (simp add: d take_grid_panels o_def title_subplot_panel lines_subplot_panel
        column_where_def)
  have single: "int (length ?ss) \<le> subplot_threshold \<longrightarrow>
       (\<exists>fig ax. drawn w w' = [fig] \<and> fig_axes fig = [ax] \<and>
          ax_lines ax =
            map (\<lambda>s. \<lparr>ln_x = map (\<lambda>r. r datetime_column)
                                  (filter (\<lambda>r. r symbol_column = s) (df_rows df)),
                        ln_y = map (\<lambda>r. r column_name)
                                  (filter (\<lambda>r. r symbol_column = s) (df_rows df)),
                        ln_label = Some s, ln_kwargs = ?kw\<rparr>) ?ss \<and>
          map ln_label (ax_lines ax) = map Some ?ss)"
    by (simp add: d single_figure_def symbol_line_def column_where_def o_def)
  from order grid single show ?thesis by (simp add: symbols_def)
qed

theorem groups_drawn_in_first_seen_order_witness:
  "''datetime'' \<in> set (df_columns (prices [''datetime'', ''symbol'', ''price''])) \<and>
   ''symbol'' \<in> set (df_columns (prices [''datetime'', ''symbol'', ''price''])) \<and>
   snd (plot_column no_figures (prices [''datetime'', ''symbol'', ''price'']) ''price'' None 10
          ''symbol'' ''datetime'') = None \<and>
   snd (plot_column no_figures (prices [''datetime'', ''symbol'', ''price'']) ''price'' None 1
          ''symbol'' ''datetime'') = None \<and>
   map (\<lambda>r. r ''symbol'') (df_rows (prices [''datetime'', ''symbol'', ''price''])) =
     [Str ''MSFT'', Str ''AAPL'', Str ''MSFT''] \<and>
   (\<exists>fig ax. drawn no_figures (fst (plot_column no_figures
                 (prices [''datetime'', ''symbol'', ''price'']) ''price'' None 10
                 ''symbol'' ''datetime'')) = [fig] \<and>
      fig_axes fig = [ax] \<and>
      map ln_label (ax_lines ax) = [Some (Str ''MSFT''), Some (Str ''AAPL'')]) \<and>
   (\<exists>fig. drawn no_figures (fst (plot_column no_figures
                 (prices [''datetime'', ''symbol'', ''price'']) ''price'' None 1
                 ''symbol'' ''datetime'')) = [fig] \<and>
      map ax_title (take 2 (fig_axes fig)) = [Some ''MSFT'', Some ''AAPL''])"
proof -
  let ?df = "prices [''datetime'', ''symbol'', ''price'']"
  let ?run10 = "plot_column no_figures ?df ''price'' None 10 ''symbol'' ''datetime''"
  let ?run1 = "plot_column no_figures ?df ''price'' None 1 ''symbol'' ''datetime''"
  have h: "''datetime'' \<in> set (df_columns ?df)" "''symbol'' \<in> set (df_columns ?df)"
    by (simp_all add: prices_def)
  have cn: "''price'' \<in> set (df_columns ?df)" by (simp add: prices_def)
  have ok10: "snd ?run10 = None"
    unfolding outcome_plot_column using h cn
    by (simp add: render_effect_def symbols_prices kwargs_of_def)
  have ok1: "snd ?run1 = None"
    unfolding outcome_plot_column using h cn
    by (simp add: render_effect_def symbols_prices kwargs_of_def)
  have r10: "?run10 = (fst ?run10, None)" using ok10 by (simp add: prod_eq_iff)
  have r1: "?run1 = (fst ?run1, None)" using ok1 by (simp add: prod_eq_iff)
  have col: "map (\<lambda>r. r ''symbol'') (df_rows ?df) = [Str ''MSFT'', Str ''AAPL'', Str ''MSFT'']"
    by (simp add: prices_def row_def)
  have n10: "int (length (symbols ?df ''symbol'')) \<le> 10" and n1: "1 < int (length (symbols ?df ''symbol''))"
    by (simp_all add: symbols_prices)
  from groups_drawn_in_first_seen_order [OF h r10] n10
  obtain fig ax where a: "drawn no_figures (fst ?run10) = [fig]" "fig_axes fig = [ax]"
    "map ln_label (ax_lines ax) = map Some (symbols ?df ''symbol'')"
    by blast
  from groups_drawn_in_first_seen_order [OF h r1] n1
  obtain fig' where b: "drawn no_figures (fst ?run1) = [fig']"
    "map ax_title (take (length (symbols ?df ''symbol'')) (fig_axes fig')) =
       map (\<lambda>s. Some (str s)) (symbols ?df ''symbol'')"
    by blast
  have a': "\<exists>fig ax. drawn no_figures (fst ?run10) = [fig] \<and> fig_axes fig = [ax] \<and>
      map ln_label (ax_lines ax) = [Some (Str ''MSFT''), Some (Str ''AAPL'')]"
    using a by (simp add: symbols_prices)
  have b': "\<exists>fig. drawn no_figures (fst ?run1) = [fig] \<and>
      map ax_title (take 2 (fig_axes fig)) = [Some ''MSFT'', Some ''AAPL'']"
    using b by (simp add: symbols_prices numeral_2_eq_2)
  from h ok10 ok1 col a' b' show ?thesis by simp
qed

end
